theory Spec2Isabelle
  imports Main "HOL-Library.Sublist"
begin

section \<open>JavaScript values as used by the bridge\<close>

text \<open>
  The request arguments, the provider's replies and every result the dispatcher builds are
  untyped JavaScript values (\<^verbatim>\<open>any\<close> in the source). They are modelled by the
  JSON fragment of the language plus \<^verbatim>\<open>undefined\<close>. Numbers are restricted to
  integers; strings are lists of code units below 256. An object is the list of its own properties
  in the order the engine enumerates them, with distinct keys, as \<^verbatim>\<open>JSON.parse\<close> and
  the object literals of the source produce them.
\<close>

datatype jsval =
    JUndefined
  | JNull
  | JBool bool
  | JNum int
  | JStr string
  | JArr "jsval list"
  | JObj "(string \<times> jsval) list"

text \<open>
  The errors the source and the engine create are \<^verbatim>\<open>Error\<close> instances: the
  \<^verbatim>\<open>new Error(...)\<close> of the source and the engine's \<^verbatim>\<open>TypeError\<close>. Only their
  \<^verbatim>\<open>message\<close> is read.
\<close>

datatype exn = Error string | TypeError string

fun message :: "exn \<Rightarrow> string" where
  "message (Error m) = m"
| "message (TypeError m) = m"

text \<open>
  What a \<^verbatim>\<open>catch (error: any)\<close> clause can receive: an \<^verbatim>\<open>Error\<close> instance, or
  any other value, since a promise may reject with whatever it likes, \<^verbatim>\<open>null\<close> and
  \<^verbatim>\<open>undefined\<close> included.
\<close>

datatype thrown = ErrorInstance exn | OtherValue jsval

text \<open>Truthiness (\<^verbatim>\<open>if (x)\<close>, \<^verbatim>\<open>x ? a : b\<close>, \<^verbatim>\<open>!x\<close>).\<close>

fun truthy :: "jsval \<Rightarrow> bool" where
  "truthy JUndefined = False"
| "truthy JNull = False"
| "truthy (JBool b) = b"
| "truthy (JNum n) = (n \<noteq> 0)"
| "truthy (JStr s) = (s \<noteq> [])"
| "truthy (JArr xs) = True"
| "truthy (JObj kvs) = True"

text \<open>The nullish test behind \<^verbatim>\<open>a ?? b\<close>.\<close>

fun nullish :: "jsval \<Rightarrow> bool" where
  "nullish JUndefined = True"
| "nullish JNull = True"
| "nullish v = False"

definition coalesce :: "jsval \<Rightarrow> jsval \<Rightarrow> jsval" where
  "coalesce a b = (if nullish a then b else a)"

text \<open>
  Reading a property \<^verbatim>\<open>v.k\<close> of a value that is neither \<^verbatim>\<open>null\<close> nor
  \<^verbatim>\<open>undefined\<close>, for the keys the source reads: \<^verbatim>\<open>name\<close>, \<^verbatim>\<open>arguments\<close>, the
  nine argument names of \<^verbatim>\<open>send-email\<close>, \<^verbatim>\<open>error\<close> and \<^verbatim>\<open>data\<close>. None of them
  is defined on a built-in prototype, so the value is the object's own property, and
  \<^verbatim>\<open>undefined\<close> on a miss and on every string, number, boolean or array.
\<close>

fun get_prop :: "jsval \<Rightarrow> string \<Rightarrow> jsval" where
  "get_prop (JObj kvs) k = (case map_of kvs k of None \<Rightarrow> JUndefined | Some v \<Rightarrow> v)"
| "get_prop v k = JUndefined"

text \<open>
  Destructuring \<^verbatim>\<open>const { k, ... } = src\<close> and member access \<^verbatim>\<open>src.k\<close> throw a
  \<^verbatim>\<open>TypeError\<close> on \<^verbatim>\<open>null\<close> and \<^verbatim>\<open>undefined\<close>. The message texts follow
  the wording of V8, which names the source expression where there is one (\<open>src\<close>) and
  the value otherwise; no result below depends on them beyond their being non-empty.
\<close>

fun type_name :: "jsval \<Rightarrow> string" where
  "type_name JNull = ''null''"
| "type_name v = ''undefined''"

definition destructure :: "string \<Rightarrow> string \<Rightarrow> jsval \<Rightarrow> exn + jsval" where
  "destructure first_key src v =
     (if nullish v
      then Inl (TypeError (''Cannot destructure property '' @ [CHR 0x27] @ first_key @ [CHR 0x27]
                 @ '' of '' @ [CHR 0x27] @ src @ [CHR 0x27] @ '' as it is '' @ type_name v @ ''.''))
      else Inr v)"

definition read_member :: "jsval \<Rightarrow> string \<Rightarrow> exn + jsval" where
  "read_member v k =
     (if nullish v
      then Inl (TypeError (''Cannot read properties of '' @ type_name v
                 @ '' (reading '' @ [CHR 0x27] @ k @ [CHR 0x27] @ '')''))
      else Inr (get_prop v k))"

subsection \<open>Rendering of integers\<close>

text \<open>
  \<^verbatim>\<open>Number.prototype.toString\<close> on an integer: plain decimal digits below \<open>10^21\<close>,
  from there on the significant digits in exponent form (\<^verbatim>\<open>1e+21\<close>,
  \<^verbatim>\<open>1.25e+22\<close>). The engine's numbers are doubles and it prints the shortest digits
  that read back as the same double: \<open>number_text\<close> agrees with it on every integer of
  magnitude up to \<open>2^53\<close> and on every larger integer with at most 15 significant digits.
\<close>

definition digit_char :: "nat \<Rightarrow> char" where
  "digit_char d = char_of (48 + d)"

fun nat_digits :: "nat \<Rightarrow> string" where
  "nat_digits n = (if n < 10 then [digit_char n] else nat_digits (n div 10) @ [digit_char (n mod 10)])"

declare nat_digits.simps [simp del]

definition significant_digits :: "string \<Rightarrow> string" where
  "significant_digits ds = rev (dropWhile (\<lambda>c. c = CHR ''0'') (rev ds))"

definition exponent_form :: "nat \<Rightarrow> string" where
  "exponent_form n =
     (let ds = nat_digits n; sd = significant_digits ds
      in (if length sd \<le> 1 then sd else hd sd # CHR ''.'' # tl sd)
         @ ''e+'' @ nat_digits (length ds - 1))"

definition magnitude_text :: "nat \<Rightarrow> string" where
  "magnitude_text n = (if n < 10 ^ 21 then nat_digits n else exponent_form n)"

definition number_text :: "int \<Rightarrow> string" where
  "number_text i = (if i < 0 then CHR ''-'' # magnitude_text (nat (- i)) else magnitude_text (nat i))"

subsection \<open>String conversion in template literals\<close>

text \<open>
  \<^verbatim>\<open>`${v}`\<close> applies \<^verbatim>\<open>ToString\<close>. An array joins its elements with commas,
  \<^verbatim>\<open>null\<close> and \<^verbatim>\<open>undefined\<close> elements giving the empty string. A plain object
  gives \<^verbatim>\<open>[object Object]\<close>, unless it has an own property \<^verbatim>\<open>toString\<close>: a JSON
  value is never callable, so the conversion then finds no usable method and throws.
\<close>

fun join :: "string \<Rightarrow> string list \<Rightarrow> string" where
  "join sep [] = []"
| "join sep [x] = x"
| "join sep (x # y # ys) = x @ sep @ join sep (y # ys)"

fun sequence :: "(exn + 'a) list \<Rightarrow> exn + 'a list" where
  "sequence [] = Inr []"
| "sequence (Inl e # rs) = Inl e"
| "sequence (Inr x # rs) = (case sequence rs of Inl e \<Rightarrow> Inl e | Inr xs \<Rightarrow> Inr (x # xs))"

fun to_string :: "jsval \<Rightarrow> exn + string" where
  "to_string JUndefined = Inr ''undefined''"
| "to_string JNull = Inr ''null''"
| "to_string (JBool b) = Inr (if b then ''true'' else ''false'')"
| "to_string (JNum n) = Inr (number_text n)"
| "to_string (JStr s) = Inr s"
| "to_string (JArr xs) =
     (case sequence (map (\<lambda>x. if nullish x then Inr [] else to_string x) xs) of
        Inl e \<Rightarrow> Inl e
      | Inr ss \<Rightarrow> Inr (join '','' ss))"
| "to_string (JObj kvs) =
     (if map_of kvs ''toString'' \<noteq> None
      then Inl (TypeError ''Cannot convert object to primitive value'')
      else Inr ''[object Object]'')"

subsection \<open>JSON.stringify\<close>

definition hex_char :: "nat \<Rightarrow> char" where
  "hex_char d = (if d < 10 then char_of (48 + d) else char_of (87 + d))"

definition escape_char :: "char \<Rightarrow> string" where
  "escape_char c =
     (if c = CHR 0x22 then [CHR 0x5C, CHR 0x22]
      else if c = CHR 0x5C then [CHR 0x5C, CHR 0x5C]
      else if c = CHR 0x08 then [CHR 0x5C, CHR ''b'']
      else if c = CHR 0x0C then [CHR 0x5C, CHR ''f'']
      else if c = CHR 0x0A then [CHR 0x5C, CHR ''n'']
      else if c = CHR 0x0D then [CHR 0x5C, CHR ''r'']
      else if c = CHR 0x09 then [CHR 0x5C, CHR ''t'']
      else if of_char c < (32::nat)
        then [CHR 0x5C, CHR ''u'', CHR ''0'', CHR ''0'',
              hex_char (of_char c div 16), hex_char (of_char c mod 16)]
      else [c])"

definition quote :: "string \<Rightarrow> string" where
  "quote s = [CHR 0x22] @ concat (map escape_char s) @ [CHR 0x22]"

text \<open>
  \<^verbatim>\<open>JSON.stringify(v)\<close> returns \<^verbatim>\<open>undefined\<close> for \<^verbatim>\<open>undefined\<close> (here
  \<open>None\<close>); inside an array \<^verbatim>\<open>undefined\<close> is written \<^verbatim>\<open>null\<close>, inside an
  object the property is left out.
\<close>

fun stringify :: "jsval \<Rightarrow> string option" where
  "stringify JUndefined = None"
| "stringify JNull = Some ''null''"
| "stringify (JBool b) = Some (if b then ''true'' else ''false'')"
| "stringify (JNum n) = Some (number_text n)"
| "stringify (JStr s) = Some (quote s)"
| "stringify (JArr xs) =
     Some (''['' @ join '','' (map (\<lambda>x. case stringify x of None \<Rightarrow> ''null'' | Some s \<Rightarrow> s) xs) @ '']'')"
| "stringify (JObj kvs) =
     Some (''{'' @ join '','' (concat (map (\<lambda>(k, v). case stringify v of None \<Rightarrow> []
                                                   | Some s \<Rightarrow> [quote k @ '':'' @ s]) kvs)) @ ''}'')"

text \<open>\<^verbatim>\<open>`${JSON.stringify(v)}`\<close>: the template writes a missing result as \<^verbatim>\<open>undefined\<close>.\<close>

definition stringify_text :: "jsval \<Rightarrow> string" where
  "stringify_text v = (case stringify v of None \<Rightarrow> ''undefined'' | Some s \<Rightarrow> s)"

section \<open>The bridge: configuration, provider, wire records\<close>

text \<open>
  Process-wide configuration read once from the environment:
  \<^verbatim>\<open>senderEmailAddress\<close> is \<^verbatim>\<open>process.env.SENDER_EMAIL_ADDRESS\<close> (a string or
  \<^verbatim>\<open>undefined\<close>), \<^verbatim>\<open>replierEmailAddresses\<close> starts as \<^verbatim>\<open>[]\<close> and is replaced
  by the comma-split of \<^verbatim>\<open>REPLY_TO_EMAIL_ADDRESSES\<close> when that variable is truthy.
\<close>

record config =
  senderEmailAddress :: "string option"
  replierEmailAddresses :: "string list"

definition sender_value :: "config \<Rightarrow> jsval" where
  "sender_value cfg = (case senderEmailAddress cfg of None \<Rightarrow> JUndefined | Some s \<Rightarrow> JStr s)"

definition repliers_value :: "config \<Rightarrow> jsval" where
  "repliers_value cfg = JArr (map JStr (replierEmailAddresses cfg))"

text \<open>
  The source tests the default sender by truthiness (\<^verbatim>\<open>senderEmailAddress ? ... : ...\<close>),
  and reports an empty variable as \<^verbatim>\<open>NOT SET\<close> in its start-up log: a default sender
  is configured when the variable holds a non-empty string.
\<close>

definition sender_configured :: "config \<Rightarrow> bool" where
  "sender_configured cfg = truthy (sender_value cfg)"

definition repliers_configured :: "config \<Rightarrow> bool" where
  "repliers_configured cfg = (length (replierEmailAddresses cfg) \<noteq> 0)"

text \<open>
  The provider client \<^verbatim>\<open>resend\<close>. Each operation is awaited once: the promise resolves
  with a value or rejects with any thrown value. The calls made while one request is handled
  are returned next to the result, in order.
\<close>

datatype outcome = Resolves jsval | Rejects thrown

record provider =
  emails_send :: "jsval \<Rightarrow> outcome"
  audiences_list :: outcome

datatype call = EmailsSend jsval | AudiencesList

datatype rpc_id = IdString string | IdNumber int | IdNull

record request =
  req_jsonrpc :: string
  req_method :: string
  req_params :: jsval
  req_id :: rpc_id

text \<open>
  The \<^verbatim>\<open>message\<close> of an error object is whatever \<^verbatim>\<open>error.message || 'Internal error'\<close>
  evaluates to; the \<^verbatim>\<open>result\<close> is whatever the handler returned.
\<close>

record rpc_error =
  code :: int
  error_message :: jsval

record response =
  resp_jsonrpc :: string
  resp_result :: "jsval option"
  resp_error :: "rpc_error option"
  resp_id :: rpc_id

section \<open>McpJsonRpcServer\<close>

definition handleInitialize :: "jsval \<Rightarrow> jsval" where
  "handleInitialize params =
     JObj [(''protocolVersion'', JStr ''2024-11-05''),
           (''capabilities'', JObj [(''tools'', JObj [])]),
           (''serverInfo'', JObj [(''name'', JStr ''resend-email-service''),
                                 (''version'', JStr ''1.0.0'')])]"

definition email_array_schema :: "string \<Rightarrow> jsval" where
  "email_array_schema description =
     JObj [(''type'', JStr ''array''),
           (''items'', JObj [(''type'', JStr ''string''), (''format'', JStr ''email'')]),
           (''description'', JStr description)]"

definition send_email_properties :: "config \<Rightarrow> (string \<times> jsval) list" where
  "send_email_properties cfg =
     [(''to'', JObj [(''type'', JStr ''string''), (''format'', JStr ''email''),
                    (''description'', JStr ''Recipient email address'')]),
      (''subject'', JObj [(''type'', JStr ''string''),
                         (''description'', JStr ''Email subject line'')]),
      (''text'', JObj [(''type'', JStr ''string''),
                      (''description'', JStr ''Plain text email content'')]),
      (''html'', JObj [(''type'', JStr ''string''),
                      (''description'', JStr ''HTML email content. When provided, the plain text argument MUST be provided as well.'')]),
      (''cc'', email_array_schema
                 ''Optional array of CC email addresses. You MUST ask the user for this parameter.''),
      (''bcc'', email_array_schema
                 ''Optional array of BCC email addresses. You MUST ask the user for this parameter.''),
      (''scheduledAt'', JObj [(''type'', JStr ''string''),
                             (''description'', JStr (''Optional parameter to schedule the email. Uses natural language like ''
                                 @ [CHR 0x27] @ ''tomorrow at 10am'' @ [CHR 0x27] @ ''.''))])]
     @ (if truthy (sender_value cfg) then []
        else [(''from'', JObj [(''type'', JStr ''string''), (''format'', JStr ''email''),
                 (''description'', JStr ''Sender email address. You MUST ask the user for this parameter.'')])])
     @ (if length (replierEmailAddresses cfg) = 0
        then [(''replyTo'', email_array_schema
                 ''Optional email addresses for reply-to. You MUST ask the user for this parameter.'')]
        else [])"

definition handleListTools :: "config \<Rightarrow> jsval" where
  "handleListTools cfg =
     JObj [(''tools'', JArr
       [JObj [(''name'', JStr ''send-email''),
              (''description'', JStr ''Send an email using Resend''),
              (''inputSchema'', JObj [(''type'', JStr ''object''),
                 (''properties'', JObj (send_email_properties cfg)),
                 (''required'', JArr [JStr ''to'', JStr ''subject'', JStr ''text''])])],
        JObj [(''name'', JStr ''list-audiences''),
              (''description'', JStr ''List all audiences from Resend''),
              (''inputSchema'', JObj [(''type'', JStr ''object''),
                 (''properties'', JObj [])])]])]"

text \<open>Assignment \<^verbatim>\<open>o.k = v\<close>: an existing own property keeps its place, a new one goes last.\<close>

fun assign :: "string \<Rightarrow> jsval \<Rightarrow> (string \<times> jsval) list \<Rightarrow> (string \<times> jsval) list" where
  "assign k v [] = [(k, v)]"
| "assign k v (p # ps) = (if fst p = k then (k, v) # ps else p # assign k v ps)"

text \<open>
  The request object both variants assemble from the destructured arguments \<open>a\<close> and the
  resolved sender and reply-to: five properties always, then \<^verbatim>\<open>html\<close>,
  \<^verbatim>\<open>scheduledAt\<close>, \<^verbatim>\<open>cc\<close>, \<^verbatim>\<open>bcc\<close> each behind its \<^verbatim>\<open>if\<close>.
\<close>

definition emailRequestObject :: "jsval \<Rightarrow> jsval \<Rightarrow> jsval \<Rightarrow> (string \<times> jsval) list" where
  "emailRequestObject a fromEmailAddress replyToEmailAddresses =
     (let to = get_prop a ''to''; subject = get_prop a ''subject''; text = get_prop a ''text'';
          html = get_prop a ''html''; scheduledAt = get_prop a ''scheduledAt'';
          cc = get_prop a ''cc''; bcc = get_prop a ''bcc'';
          r0 = [(''to'', to), (''subject'', subject), (''text'', text),
                (''from'', fromEmailAddress), (''replyTo'', replyToEmailAddresses)];
          r1 = (if truthy html then assign ''html'' html r0 else r0);
          r2 = (if truthy scheduledAt then assign ''scheduledAt'' scheduledAt r1 else r1);
          r3 = (if truthy cc then assign ''cc'' cc r2 else r2);
          r4 = (if truthy bcc then assign ''bcc'' bcc r3 else r3)
      in r4)"

text \<open>
  Lines 144 to 164 of \<^verbatim>\<open>handleCallTool\<close>: the arguments are destructured, the sender
  and reply-to are resolved against the defaults, the sender is tested for truthiness, and
  the request object is assembled.
\<close>

definition buildEmailRequest :: "config \<Rightarrow> jsval \<Rightarrow> exn + (string \<times> jsval) list" where
  "buildEmailRequest cfg args =
     (case destructure ''from'' ''args'' args of
        Inl e \<Rightarrow> Inl e
      | Inr a \<Rightarrow>
         (let from = get_prop a ''from''; replyTo = get_prop a ''replyTo'';
              fromEmailAddress = coalesce from (sender_value cfg);
              replyToEmailAddresses = coalesce replyTo (repliers_value cfg)
          in if \<not> truthy fromEmailAddress
             then Inl (Error ''from argument must be provided.'')
             else Inr (emailRequestObject a fromEmailAddress replyToEmailAddresses)))"

definition text_content :: "string \<Rightarrow> jsval" where
  "text_content s = JObj [(''content'', JArr [JObj [(''type'', JStr ''text''), (''text'', JStr s)]])]"

text \<open>
  What follows an awaited provider call: a rejection is rethrown, a reply whose
  \<^verbatim>\<open>error\<close> is truthy becomes an \<^verbatim>\<open>Error\<close> carrying its serialization, any other
  reply becomes the text payload.
\<close>

definition afterProvider :: "string \<Rightarrow> string \<Rightarrow> outcome \<Rightarrow> thrown + jsval" where
  "afterProvider failure success out =
     (case out of
        Rejects t \<Rightarrow> Inl t
      | Resolves response \<Rightarrow>
         (case read_member response ''error'' of
            Inl e \<Rightarrow> Inl (ErrorInstance e)
          | Inr err \<Rightarrow>
             if truthy err then Inl (ErrorInstance (Error (failure @ stringify_text err)))
             else Inr (text_content (success @ stringify_text (get_prop response ''data'')))))"

definition handleCallTool :: "config \<Rightarrow> provider \<Rightarrow> jsval \<Rightarrow> (thrown + jsval) \<times> call list" where
  "handleCallTool cfg resend params =
     (case destructure ''name'' ''params'' params of
        Inl e \<Rightarrow> (Inl (ErrorInstance e), [])
      | Inr p \<Rightarrow>
         (let name = get_prop p ''name''; args = get_prop p ''arguments''
          in if name = JStr ''send-email'' then
               (case buildEmailRequest cfg args of
                  Inl e \<Rightarrow> (Inl (ErrorInstance e), [])
                | Inr emailRequest \<Rightarrow>
                    (afterProvider ''Email failed to send: '' ''Email sent successfully! ''
                       (emails_send resend (JObj emailRequest)),
                     [EmailsSend (JObj emailRequest)]))
             else if name = JStr ''list-audiences'' then
               (afterProvider ''Failed to list audiences: '' ''Audiences found: ''
                  (audiences_list resend),
                [AudiencesList])
             else
               (case to_string name of
                  Inl e \<Rightarrow> (Inl (ErrorInstance e), [])
                | Inr s \<Rightarrow> (Inl (ErrorInstance (Error (''Unknown tool: '' @ s))), []))))"

text \<open>The two envelopes \<^verbatim>\<open>handleRequest\<close> builds after the \<^verbatim>\<open>switch\<close>.\<close>

definition success_response :: "request \<Rightarrow> jsval \<Rightarrow> response" where
  "success_response request result =
     \<lparr>resp_jsonrpc = ''2.0'', resp_result = Some result, resp_error = None,
      resp_id = req_id request\<rparr>"

definition failure_response :: "request \<Rightarrow> int \<Rightarrow> jsval \<Rightarrow> response" where
  "failure_response request c m =
     \<lparr>resp_jsonrpc = ''2.0'', resp_result = None,
      resp_error = Some \<lparr>code = c, error_message = m\<rparr>, resp_id = req_id request\<rparr>"

text \<open>
  The \<^verbatim>\<open>catch\<close> clause. Reading \<^verbatim>\<open>error.message\<close> gives the message of an
  \<^verbatim>\<open>Error\<close> instance and the \<^verbatim>\<open>message\<close> property of any other value; on
  \<^verbatim>\<open>null\<close> and \<^verbatim>\<open>undefined\<close> the read itself throws, inside the clause, and nothing
  catches it there. Then \<^verbatim>\<open>error.message || 'Internal error'\<close>.
\<close>

fun read_message :: "thrown \<Rightarrow> exn + jsval" where
  "read_message (ErrorInstance e) = Inr (JStr (message e))"
| "read_message (OtherValue v) = read_member v ''message''"

definition catch_response :: "request \<Rightarrow> thrown \<Rightarrow> exn + response" where
  "catch_response request error =
     (case read_message error of
        Inl e \<Rightarrow> Inl e
      | Inr m \<Rightarrow>
          Inr (failure_response request (- 32603)
                 (if truthy m then m else JStr ''Internal error'')))"

text \<open>
  \<^verbatim>\<open>handleRequest\<close> returns a promise: \<open>Inr\<close> is the response it resolves with,
  \<open>Inl\<close> the error it rejects with (an error thrown out of the \<^verbatim>\<open>catch\<close> clause).
\<close>

definition handleRequest :: "config \<Rightarrow> provider \<Rightarrow> request \<Rightarrow> (exn + response) \<times> call list" where
  "handleRequest cfg resend request =
     (if req_method request = ''initialize''
        then (Inr (success_response request (handleInitialize (req_params request))), [])
      else if req_method request = ''tools/list''
        then (Inr (success_response request (handleListTools cfg)), [])
      else if req_method request = ''tools/call''
        then (case handleCallTool cfg resend (req_params request) of
                (Inr result, calls) \<Rightarrow> (Inr (success_response request result), calls)
              | (Inl error, calls) \<Rightarrow> (catch_response request error, calls))
      else (Inr (failure_response request (- 32601) (JStr ''Method not found'')), []))"

section \<open>The server-push variant's send-email handler\<close>

text \<open>
  The second variant registers the same tool with the SDK's \<^verbatim>\<open>McpServer\<close>; the SDK
  (not part of the sources) parses the arguments against the declared schema and then
  calls the handler below with them. The handler tests the resolved sender and reply-to
  by type (\<^verbatim>\<open>typeof ... !== 'string'\<close>, \<^verbatim>\<open>Array.isArray\<close>) before it assembles the
  request.
\<close>

fun is_string :: "jsval \<Rightarrow> bool" where
  "is_string (JStr s) = True"
| "is_string v = False"

fun is_array :: "jsval \<Rightarrow> bool" where
  "is_array (JArr xs) = True"
| "is_array v = False"

definition sse_send_email :: "config \<Rightarrow> provider \<Rightarrow> jsval \<Rightarrow> (thrown + jsval) \<times> call list" where
  "sse_send_email cfg resend args =
     (case destructure ''from'' (type_name args) args of
        Inl e \<Rightarrow> (Inl (ErrorInstance e), [])
      | Inr a \<Rightarrow>
         (let from = get_prop a ''from''; replyTo = get_prop a ''replyTo'';
              fromEmailAddress = coalesce from (sender_value cfg);
              replyToEmailAddresses = coalesce replyTo (repliers_value cfg)
          in if \<not> is_string fromEmailAddress
               then (Inl (ErrorInstance (Error ''from argument must be provided.'')), [])
             else if \<not> is_string replyToEmailAddresses \<and> \<not> is_array replyToEmailAddresses
               then (Inl (ErrorInstance (Error ''replyTo argument must be provided.'')), [])
             else
               (let emailRequest = emailRequestObject a fromEmailAddress replyToEmailAddresses
                in (afterProvider ''Email failed to send: '' ''Email sent successfully! ''
                      (emails_send resend (JObj emailRequest)),
                    [EmailsSend (JObj emailRequest)]))))"

section \<open>Observations on values\<close>

text \<open>Whether an object has an own property, present even when its value is \<^verbatim>\<open>undefined\<close>.\<close>

fun has_own :: "jsval \<Rightarrow> string \<Rightarrow> bool" where
  "has_own (JObj kvs) k = (map_of kvs k \<noteq> None)"
| "has_own v k = False"



text \<open>The \<^verbatim>\<open>tools\<close> array of a \<^verbatim>\<open>tools/list\<close> result, and the fields of a tool's schema.\<close>

definition tool_list :: "jsval \<Rightarrow> jsval list" where
  "tool_list r = (case get_prop r ''tools'' of JArr ts \<Rightarrow> ts | _ \<Rightarrow> [])"

definition schema_properties :: "jsval \<Rightarrow> jsval" where
  "schema_properties tool = get_prop (get_prop tool ''inputSchema'') ''properties''"

section \<open>Sample inputs\<close>

text \<open>
  The inputs of the scenarios examined below: configurations with and without defaults, a
  provider that succeeds, one that reports \<^verbatim>\<open>{error:{message:"bad"}}\<close>, three that
  throw (an \<^verbatim>\<open>Error\<close>, a plain object, \<^verbatim>\<open>null\<close>), and the request
  \<^verbatim>\<open>tools/call\<close> for a named tool.
\<close>

definition config_with_defaults :: config where
  "config_with_defaults =
     \<lparr>senderEmailAddress = Some ''noreply@example.com'',
      replierEmailAddresses = [''support@example.com'']\<rparr>"

definition config_sender_only :: config where
  "config_sender_only =
     \<lparr>senderEmailAddress = Some ''noreply@example.com'', replierEmailAddresses = []\<rparr>"

definition config_without_defaults :: config where
  "config_without_defaults = \<lparr>senderEmailAddress = None, replierEmailAddresses = []\<rparr>"

definition provider_ok :: provider where
  "provider_ok =
     \<lparr>emails_send = (\<lambda>r. Resolves (JObj [(''data'', JObj [(''id'', JStr ''1'')]), (''error'', JNull)])),
      audiences_list = Resolves (JObj [(''data'', JArr []), (''error'', JNull)])\<rparr>"

definition provider_bad :: provider where
  "provider_bad =
     \<lparr>emails_send = (\<lambda>r. Resolves (JObj [(''error'', JObj [(''message'', JStr ''bad'')])])),
      audiences_list = Resolves (JObj [(''error'', JObj [(''message'', JStr ''bad'')])])\<rparr>"

definition provider_throws :: provider where
  "provider_throws =
     \<lparr>emails_send = (\<lambda>r. Rejects (ErrorInstance (Error ''fetch failed''))),
      audiences_list = Rejects (ErrorInstance (Error ''fetch failed''))\<rparr>"

definition provider_throws_object :: provider where
  "provider_throws_object =
     \<lparr>emails_send = (\<lambda>r. Rejects (OtherValue (JObj [(''error'', JObj [(''message'', JStr ''bad'')])]))),
      audiences_list = Rejects (OtherValue (JObj [(''error'', JObj [(''message'', JStr ''bad'')])]))\<rparr>"


definition tools_call :: "rpc_id \<Rightarrow> string \<Rightarrow> jsval \<Rightarrow> request" where
  "tools_call i name args =
     \<lparr>req_jsonrpc = ''2.0'', req_method = ''tools/call'',
      req_params = JObj [(''name'', JStr name), (''arguments'', args)], req_id = i\<rparr>"

definition basic_arguments :: "(string \<times> jsval) list" where
  "basic_arguments = [(''to'', JStr ''a@b.com''), (''subject'', JStr ''hi''), (''text'', JStr ''hello'')]"

section \<open>Auxiliary facts\<close>

lemma map_of_assign:
  "map_of (assign k v kvs) k' = (if k' = k then Some v else map_of kvs k')"
  by (induction kvs) auto

lemma get_prop_nullish: "nullish v \<Longrightarrow> get_prop v k = JUndefined"
  by (cases v) auto

lemma truthy_stringify: "truthy v \<Longrightarrow> \<exists>s. stringify v = Some s"
  by (cases v) auto

lemma destructure_Inr: "\<not> nullish v \<Longrightarrow> destructure k src v = Inr v"
  by (simp add: destructure_def)

lemma destructure_Inl: "nullish v \<Longrightarrow> \<exists>m. destructure k src v = Inl (TypeError m) \<and> m \<noteq> []"
  by (simp add: destructure_def)

lemma emailRequestObject_fixed:
  "map_of (emailRequestObject a f r) ''to'' = Some (get_prop a ''to'')"
  "map_of (emailRequestObject a f r) ''subject'' = Some (get_prop a ''subject'')"
  "map_of (emailRequestObject a f r) ''text'' = Some (get_prop a ''text'')"
  "map_of (emailRequestObject a f r) ''from'' = Some f"
  "map_of (emailRequestObject a f r) ''replyTo'' = Some r"
  by (simp_all add: emailRequestObject_def Let_def map_of_assign)

lemma emailRequestObject_optional:
  "map_of (emailRequestObject a f r) ''html'' =
     (if truthy (get_prop a ''html'') then Some (get_prop a ''html'') else None)"
  "map_of (emailRequestObject a f r) ''scheduledAt'' =
     (if truthy (get_prop a ''scheduledAt'') then Some (get_prop a ''scheduledAt'') else None)"
  "map_of (emailRequestObject a f r) ''cc'' =
     (if truthy (get_prop a ''cc'') then Some (get_prop a ''cc'') else None)"
  "map_of (emailRequestObject a f r) ''bcc'' =
     (if truthy (get_prop a ''bcc'') then Some (get_prop a ''bcc'') else None)"
  by (simp_all add: emailRequestObject_def Let_def map_of_assign)

lemma buildEmailRequest_Inr:
  "buildEmailRequest cfg args = Inr r \<longleftrightarrow>
     \<not> nullish args
     \<and> truthy (coalesce (get_prop args ''from'') (sender_value cfg))
     \<and> r = emailRequestObject args (coalesce (get_prop args ''from'') (sender_value cfg))
              (coalesce (get_prop args ''replyTo'') (repliers_value cfg))"
  by (auto simp: buildEmailRequest_def destructure_def Let_def)

lemma buildEmailRequest_falsy_sender:
  "\<not> nullish args \<Longrightarrow> \<not> truthy (coalesce (get_prop args ''from'') (sender_value cfg)) \<Longrightarrow>
     buildEmailRequest cfg args = Inl (Error ''from argument must be provided.'')"
  by (simp add: buildEmailRequest_def destructure_def Let_def)

lemma catch_response_ErrorInstance:
  "catch_response request (ErrorInstance e) =
     Inr (failure_response request (- 32603)
            (JStr (if message e = [] then ''Internal error'' else message e)))"
  by (simp add: catch_response_def)

lemma catch_response_OtherValue:
  "\<not> nullish v \<Longrightarrow>
   catch_response request (OtherValue v) =
     Inr (failure_response request (- 32603)
            (if truthy (get_prop v ''message'') then get_prop v ''message''
             else JStr ''Internal error''))"
  by (simp add: catch_response_def read_member_def)

lemma catch_response_nullish:
  "nullish v \<Longrightarrow> \<exists>m. catch_response request (OtherValue v) = Inl (TypeError m)"
  by (simp add: catch_response_def read_member_def)

text \<open>What the dispatcher does with a \<^verbatim>\<open>tools/call\<close> of \<^verbatim>\<open>send-email\<close>.\<close>

lemma handleRequest_send_email:
  assumes "req_method request = ''tools/call''"
    and "get_prop (req_params request) ''name'' = JStr ''send-email''"
  shows "handleRequest cfg resend request =
     (case buildEmailRequest cfg (get_prop (req_params request) ''arguments'') of
        Inl e \<Rightarrow> (catch_response request (ErrorInstance e), [])
      | Inr r \<Rightarrow>
          ((case afterProvider ''Email failed to send: '' ''Email sent successfully! ''
                   (emails_send resend (JObj r)) of
              Inl t \<Rightarrow> catch_response request t
            | Inr result \<Rightarrow> Inr (success_response request result)),
           [EmailsSend (JObj r)]))"
proof -
  have "\<not> nullish (req_params request)"
    using assms(2) get_prop_nullish by fastforce
  then show ?thesis
    using assms
    by (simp add: handleRequest_def handleCallTool_def destructure_Inr Let_def
             split: sum.splits)
qed

lemma send_email_calls:
  assumes "req_method request = ''tools/call''"
    and "get_prop (req_params request) ''name'' = JStr ''send-email''"
  shows "snd (handleRequest cfg resend request) =
     (case buildEmailRequest cfg (get_prop (req_params request) ''arguments'') of
        Inl e \<Rightarrow> [] | Inr r \<Rightarrow> [EmailsSend (JObj r)])"
  using handleRequest_send_email [OF assms, of cfg resend]
  by (simp split: sum.splits)

lemma send_email_called:
  assumes "req_method request = ''tools/call''"
    and "get_prop (req_params request) ''name'' = JStr ''send-email''"
    and "EmailsSend e \<in> set (snd (handleRequest cfg resend request))"
  shows "\<exists>r. buildEmailRequest cfg (get_prop (req_params request) ''arguments'') = Inr r
             \<and> e = JObj r"
proof (cases "buildEmailRequest cfg (get_prop (req_params request) ''arguments'')")
  case (Inl x)
  then show ?thesis
    using assms(3) send_email_calls [OF assms(1,2), of cfg resend] by simp
next
  case (Inr r)
  then show ?thesis
    using assms(3) send_email_calls [OF assms(1,2), of cfg resend] by simp
qed

lemma sent_request_shape:
  assumes "req_method request = ''tools/call''"
    and "get_prop (req_params request) ''name'' = JStr ''send-email''"
    and "EmailsSend e \<in> set (snd (handleRequest cfg resend request))"
  shows "\<not> nullish (get_prop (req_params request) ''arguments'')
    \<and> truthy (coalesce (get_prop (get_prop (req_params request) ''arguments'') ''from'') (sender_value cfg))
    \<and> e = JObj (emailRequestObject (get_prop (req_params request) ''arguments'')
          (coalesce (get_prop (get_prop (req_params request) ''arguments'') ''from'') (sender_value cfg))
          (coalesce (get_prop (get_prop (req_params request) ''arguments'') ''replyTo'') (repliers_value cfg)))
    \<and> snd (handleRequest cfg resend request) = [EmailsSend e]"
proof -
  from send_email_called [OF assms] obtain r where
    b: "buildEmailRequest cfg (get_prop (req_params request) ''arguments'') = Inr r"
    and e: "e = JObj r"
    by blast
  from b have shape: "\<not> nullish (get_prop (req_params request) ''arguments'')
    \<and> truthy (coalesce (get_prop (get_prop (req_params request) ''arguments'') ''from'') (sender_value cfg))
    \<and> r = emailRequestObject (get_prop (req_params request) ''arguments'')
          (coalesce (get_prop (get_prop (req_params request) ''arguments'') ''from'') (sender_value cfg))
          (coalesce (get_prop (get_prop (req_params request) ''arguments'') ''replyTo'') (repliers_value cfg))"
    by (simp add: buildEmailRequest_Inr)
  from b have "snd (handleRequest cfg resend request) = [EmailsSend (JObj r)]"
    unfolding send_email_calls [OF assms(1,2)] by simp
  with shape e show ?thesis by simp
qed

section \<open>The dispatcher's envelope\<close>








text \<open>
  Claim C7. A request whose method is none of \<^verbatim>\<open>initialize\<close>, \<^verbatim>\<open>tools/list\<close>,
  \<^verbatim>\<open>tools/call\<close> is answered with the error \<^verbatim>\<open>-32601\<close> (Method not found), no
  \<^verbatim>\<open>result\<close>, and the request's \<^verbatim>\<open>id\<close>. The answer is the same for every
  configuration and provider, and no provider operation is called: neither the tool list
  nor the tool handlers take part.
\<close>

theorem unknown_method_not_found:
  assumes "req_method request \<notin> {''initialize'', ''tools/list'', ''tools/call''}"
  shows "handleRequest cfg resend request =
           (Inr \<lparr>resp_jsonrpc = ''2.0'', resp_result = None,
                 resp_error = Some \<lparr>code = - 32601, error_message = JStr ''Method not found''\<rparr>,
                 resp_id = req_id request\<rparr>, [])"
  using assms by (simp add: handleRequest_def failure_response_def)

theorem unknown_method_not_found_witness:
  "req_method \<lparr>req_jsonrpc = ''2.0'', req_method = ''resources/list'', req_params = JUndefined,
        req_id = IdNull\<rparr> \<notin> {''initialize'', ''tools/list'', ''tools/call''}
   \<and> handleRequest config_with_defaults provider_ok
        \<lparr>req_jsonrpc = ''2.0'', req_method = ''resources/list'', req_params = JUndefined,
         req_id = IdNull\<rparr>
      = (Inr \<lparr>resp_jsonrpc = ''2.0'', resp_result = None,
              resp_error = Some \<lparr>code = - 32601, error_message = JStr ''Method not found''\<rparr>,
              resp_id = IdNull\<rparr>, [])"
  using unknown_method_not_found [of "\<lparr>req_jsonrpc = ''2.0'', req_method = ''resources/list'',
      req_params = JUndefined, req_id = IdNull\<rparr>" config_with_defaults provider_ok]
  by simp

section \<open>Listing the tools\<close>

text \<open>
  Claim C4. For every configuration, the result of \<^verbatim>\<open>tools/list\<close> holds exactly two
  tools, named \<^verbatim>\<open>send-email\<close> and \<^verbatim>\<open>list-audiences\<close> in this order. The schema of
  \<^verbatim>\<open>send-email\<close> has a \<^verbatim>\<open>from\<close> field exactly when no default sender is configured,
  and a \<^verbatim>\<open>replyTo\<close> field exactly when no default reply-to list is configured. The
  response carries no error and no provider operation is called.
\<close>

theorem tools_list_two_tools:
  assumes "req_method request = ''tools/list''"
  shows "\<exists>result send_email list_audiences.
           handleRequest cfg resend request =
             (Inr \<lparr>resp_jsonrpc = ''2.0'', resp_result = Some result, resp_error = None,
                   resp_id = req_id request\<rparr>, [])
         \<and> tool_list result = [send_email, list_audiences]
         \<and> get_prop send_email ''name'' = JStr ''send-email''
         \<and> get_prop list_audiences ''name'' = JStr ''list-audiences''
         \<and> has_own (schema_properties send_email) ''from'' = (\<not> sender_configured cfg)
         \<and> has_own (schema_properties send_email) ''replyTo'' = (\<not> repliers_configured cfg)"
  using assms
  by (simp add: handleRequest_def success_response_def handleListTools_def tool_list_def
        schema_properties_def send_email_properties_def sender_configured_def
        repliers_configured_def)

theorem tools_list_two_tools_witness:
  "req_method \<lparr>req_jsonrpc = ''2.0'', req_method = ''tools/list'', req_params = JUndefined,
       req_id = IdString ''a''\<rparr> = ''tools/list''
   \<and> sender_configured config_sender_only
   \<and> \<not> repliers_configured config_sender_only
   \<and> (\<exists>result send_email list_audiences.
         handleRequest config_sender_only provider_ok
             \<lparr>req_jsonrpc = ''2.0'', req_method = ''tools/list'', req_params = JUndefined,
              req_id = IdString ''a''\<rparr> =
             (Inr \<lparr>resp_jsonrpc = ''2.0'', resp_result = Some result, resp_error = None,
                   resp_id = IdString ''a''\<rparr>, [])
         \<and> tool_list result = [send_email, list_audiences]
         \<and> get_prop send_email ''name'' = JStr ''send-email''
         \<and> get_prop list_audiences ''name'' = JStr ''list-audiences''
         \<and> \<not> has_own (schema_properties send_email) ''from''
         \<and> has_own (schema_properties send_email) ''replyTo'')"
proof -
  have s: "sender_configured config_sender_only"
    by (simp add: sender_configured_def sender_value_def config_sender_only_def)
  have r: "\<not> repliers_configured config_sender_only"
    by (simp add: repliers_configured_def config_sender_only_def)
  show ?thesis
    using tools_list_two_tools [of "\<lparr>req_jsonrpc = ''2.0'', req_method = ''tools/list'',
        req_params = JUndefined, req_id = IdString ''a''\<rparr>" config_sender_only provider_ok] s r
    by simp
qed

section \<open>Calling send-email\<close>

text \<open>
  Claim C3. In a \<^verbatim>\<open>tools/call\<close> of \<^verbatim>\<open>send-email\<close>, an explicit argument (one that is
  neither \<^verbatim>\<open>undefined\<close> nor \<^verbatim>\<open>null\<close>, the test of \<^verbatim>\<open>??\<close>) overrides the server-level
  default: an explicit \<^verbatim>\<open>from\<close> is the sender of the request passed to the provider (and
  the call is rejected without a provider call when that value is falsy, the default never
  being used in its place), and an explicit \<^verbatim>\<open>replyTo\<close> is the reply-to of every request
  passed to the provider. When a default sender is configured and the arguments carry neither
  \<^verbatim>\<open>from\<close> nor \<^verbatim>\<open>replyTo\<close>, the provider is called once, with \<^verbatim>\<open>from\<close> the default
  sender, \<^verbatim>\<open>replyTo\<close> the default reply-to list, and the caller's \<^verbatim>\<open>to\<close>,
  \<^verbatim>\<open>subject\<close> and \<^verbatim>\<open>text\<close>.
\<close>

theorem explicit_arguments_override_defaults:
  assumes "req_method request = ''tools/call''"
    and "get_prop (req_params request) ''name'' = JStr ''send-email''"
    and "args = get_prop (req_params request) ''arguments''"
    and "calls = snd (handleRequest cfg resend request)"
  shows "(\<not> nullish (get_prop args ''from'') \<longrightarrow>
           (if truthy (get_prop args ''from'')
            then \<exists>e. calls = [EmailsSend e] \<and> get_prop e ''from'' = get_prop args ''from''
            else calls = []))
    \<and> (\<not> nullish (get_prop args ''replyTo'') \<longrightarrow>
           (\<forall>e. EmailsSend e \<in> set calls \<longrightarrow> get_prop e ''replyTo'' = get_prop args ''replyTo''))
    \<and> (\<not> nullish args \<and> nullish (get_prop args ''from'') \<and> nullish (get_prop args ''replyTo'')
           \<and> sender_configured cfg \<longrightarrow>
           (\<exists>e. calls = [EmailsSend e]
              \<and> get_prop e ''from'' = sender_value cfg
              \<and> get_prop e ''replyTo'' = repliers_value cfg
              \<and> get_prop e ''to'' = get_prop args ''to''
              \<and> get_prop e ''subject'' = get_prop args ''subject''
              \<and> get_prop e ''text'' = get_prop args ''text''))"
proof -
  have calls: "calls = (case buildEmailRequest cfg args of
        Inl e \<Rightarrow> [] | Inr r \<Rightarrow> [EmailsSend (JObj r)])"
    using send_email_calls [OF assms(1,2), of cfg resend] assms(3,4) by simp
  have sender: "\<not> nullish (get_prop args ''from'') \<longrightarrow>
           (if truthy (get_prop args ''from'')
            then \<exists>e. calls = [EmailsSend e] \<and> get_prop e ''from'' = get_prop args ''from''
            else calls = [])"
  proof
    assume f: "\<not> nullish (get_prop args ''from'')"
    then have na: "\<not> nullish args" using get_prop_nullish by fastforce
    have co: "coalesce (get_prop args ''from'') (sender_value cfg) = get_prop args ''from''"
      using f by (simp add: coalesce_def)
    show "if truthy (get_prop args ''from'')
            then \<exists>e. calls = [EmailsSend e] \<and> get_prop e ''from'' = get_prop args ''from''
            else calls = []"
    proof (cases "truthy (get_prop args ''from'')")
      case True
      then have "\<exists>r. buildEmailRequest cfg args = Inr r
                   \<and> map_of r ''from'' = Some (get_prop args ''from'')"
        using na co by (simp add: buildEmailRequest_Inr emailRequestObject_fixed)
      then show ?thesis using True calls by auto
    next
      case False
      then have "buildEmailRequest cfg args = Inl (Error ''from argument must be provided.'')"
        using na co by (simp add: buildEmailRequest_falsy_sender)
      then show ?thesis using False calls by simp
    qed
  qed
  have repliers: "\<not> nullish (get_prop args ''replyTo'') \<longrightarrow>
           (\<forall>e. EmailsSend e \<in> set calls \<longrightarrow> get_prop e ''replyTo'' = get_prop args ''replyTo'')"
  proof (intro impI allI)
    fix e
    assume r: "\<not> nullish (get_prop args ''replyTo'')" and e: "EmailsSend e \<in> set calls"
    from e calls obtain r' where b: "buildEmailRequest cfg args = Inr r'" and "e = JObj r'"
      by (auto split: sum.splits)
    moreover have "map_of r' ''replyTo'' = Some (get_prop args ''replyTo'')"
      using b r by (simp add: buildEmailRequest_Inr emailRequestObject_fixed coalesce_def)
    ultimately show "get_prop e ''replyTo'' = get_prop args ''replyTo''" by simp
  qed
  have defaults: "\<not> nullish args \<and> nullish (get_prop args ''from'')
           \<and> nullish (get_prop args ''replyTo'') \<and> sender_configured cfg \<longrightarrow>
           (\<exists>e. calls = [EmailsSend e]
              \<and> get_prop e ''from'' = sender_value cfg
              \<and> get_prop e ''replyTo'' = repliers_value cfg
              \<and> get_prop e ''to'' = get_prop args ''to''
              \<and> get_prop e ''subject'' = get_prop args ''subject''
              \<and> get_prop e ''text'' = get_prop args ''text'')"
  proof
    assume h: "\<not> nullish args \<and> nullish (get_prop args ''from'')
           \<and> nullish (get_prop args ''replyTo'') \<and> sender_configured cfg"
    then have "buildEmailRequest cfg args
        = Inr (emailRequestObject args (sender_value cfg) (repliers_value cfg))"
      by (simp add: buildEmailRequest_Inr coalesce_def sender_configured_def)
    then show "\<exists>e. calls = [EmailsSend e]
              \<and> get_prop e ''from'' = sender_value cfg
              \<and> get_prop e ''replyTo'' = repliers_value cfg
              \<and> get_prop e ''to'' = get_prop args ''to''
              \<and> get_prop e ''subject'' = get_prop args ''subject''
              \<and> get_prop e ''text'' = get_prop args ''text''"
      using calls by (simp add: emailRequestObject_fixed)
  qed
  from sender repliers defaults show ?thesis by (intro conjI)
qed

theorem explicit_arguments_override_defaults_witness:
  "(\<exists>e. snd (handleRequest config_with_defaults provider_ok
              (tools_call IdNull ''send-email'' (JObj basic_arguments))) = [EmailsSend e]
       \<and> get_prop e ''from'' = JStr ''noreply@example.com''
       \<and> get_prop e ''replyTo'' = JArr [JStr ''support@example.com'']
       \<and> get_prop e ''to'' = JStr ''a@b.com''
       \<and> get_prop e ''subject'' = JStr ''hi''
       \<and> get_prop e ''text'' = JStr ''hello'')
   \<and> (\<exists>e. snd (handleRequest config_with_defaults provider_ok
              (tools_call IdNull ''send-email''
                 (JObj (basic_arguments @ [(''from'', JStr ''me@b.com''),
                                           (''replyTo'', JArr [JStr ''you@b.com''])]))))
            = [EmailsSend e]
       \<and> get_prop e ''from'' = JStr ''me@b.com''
       \<and> get_prop e ''replyTo'' = JArr [JStr ''you@b.com''])"
proof -
  let ?r1 = "tools_call IdNull ''send-email'' (JObj basic_arguments)"
  let ?r2 = "tools_call IdNull ''send-email''
                 (JObj (basic_arguments @ [(''from'', JStr ''me@b.com''),
                                           (''replyTo'', JArr [JStr ''you@b.com''])]))"
  have m: "req_method ?r1 = ''tools/call''" "req_method ?r2 = ''tools/call''"
    by (simp_all add: tools_call_def)
  have n: "get_prop (req_params ?r1) ''name'' = JStr ''send-email''"
      "get_prop (req_params ?r2) ''name'' = JStr ''send-email''"
    by (simp_all add: tools_call_def)
  have c: "sender_configured config_with_defaults"
    by (simp add: sender_configured_def sender_value_def config_with_defaults_def)
  note t1 = explicit_arguments_override_defaults [OF m(1) n(1) refl refl,
      of config_with_defaults provider_ok]
  note t2 = explicit_arguments_override_defaults [OF m(2) n(2) refl refl,
      of config_with_defaults provider_ok]
  have first: "\<exists>e. snd (handleRequest config_with_defaults provider_ok ?r1) = [EmailsSend e]
       \<and> get_prop e ''from'' = JStr ''noreply@example.com''
       \<and> get_prop e ''replyTo'' = JArr [JStr ''support@example.com'']
       \<and> get_prop e ''to'' = JStr ''a@b.com''
       \<and> get_prop e ''subject'' = JStr ''hi''
       \<and> get_prop e ''text'' = JStr ''hello''"
    using t1 c
    by (simp add: tools_call_def basic_arguments_def sender_value_def repliers_value_def
          config_with_defaults_def)
  have second: "\<exists>e. snd (handleRequest config_with_defaults provider_ok ?r2) = [EmailsSend e]
       \<and> get_prop e ''from'' = JStr ''me@b.com''
       \<and> get_prop e ''replyTo'' = JArr [JStr ''you@b.com'']"
    using t2
    by (auto simp add: tools_call_def basic_arguments_def)
  from first second show ?thesis by (intro conjI)
qed

text \<open>
  Claim C9. A \<^verbatim>\<open>send-email\<close> call whose \<^verbatim>\<open>from\<close> argument is the empty string is
  rejected with \<^verbatim>\<open>-32603\<close> and the message of the sender check, whatever the
  configuration: the empty string is not nullish, so \<^verbatim>\<open>??\<close> keeps it in place of the
  default, and it fails the truthiness test. The provider is not called.
\<close>

theorem empty_from_rejected:
  assumes "req_method request = ''tools/call''"
    and "get_prop (req_params request) ''name'' = JStr ''send-email''"
    and "get_prop (get_prop (req_params request) ''arguments'') ''from'' = JStr ''''"
  shows "handleRequest cfg resend request =
           (Inr \<lparr>resp_jsonrpc = ''2.0'', resp_result = None,
                 resp_error = Some \<lparr>code = - 32603,
                                     error_message = JStr ''from argument must be provided.''\<rparr>,
                 resp_id = req_id request\<rparr>, [])"
proof -
  let ?args = "get_prop (req_params request) ''arguments''"
  have nn: "\<not> nullish ?args"
    using assms(3) get_prop_nullish by fastforce
  have "\<not> truthy (coalesce (get_prop ?args ''from'') (sender_value cfg))"
    using assms(3) by (simp add: coalesce_def)
  with nn have "buildEmailRequest cfg ?args = Inl (Error ''from argument must be provided.'')"
    by (rule buildEmailRequest_falsy_sender)
  then show ?thesis
    using handleRequest_send_email [OF assms(1,2), of cfg resend]
    by (simp add: catch_response_ErrorInstance failure_response_def)
qed

theorem empty_from_rejected_witness:
  "req_method (tools_call (IdNumber 7) ''send-email'' (JObj ((''from'', JStr '''') # basic_arguments)))
     = ''tools/call''
   \<and> sender_configured config_with_defaults
   \<and> handleRequest config_with_defaults provider_ok
        (tools_call (IdNumber 7) ''send-email'' (JObj ((''from'', JStr '''') # basic_arguments)))
      = (Inr \<lparr>resp_jsonrpc = ''2.0'', resp_result = None,
              resp_error = Some \<lparr>code = - 32603,
                                  error_message = JStr ''from argument must be provided.''\<rparr>,
              resp_id = IdNumber 7\<rparr>, [])"
  using empty_from_rejected [of "tools_call (IdNumber 7) ''send-email''
      (JObj ((''from'', JStr '''') # basic_arguments))" config_with_defaults provider_ok]
  by (simp add: tools_call_def sender_configured_def sender_value_def config_with_defaults_def)

text \<open>
  Claim C10, as amended. Every request object passed to the provider by a \<^verbatim>\<open>send-email\<close>
  call has a \<^verbatim>\<open>replyTo\<close> property, never nullish, and equal to the empty array when the
  argument is absent and no default list is configured. Each of \<^verbatim>\<open>html\<close>,
  \<^verbatim>\<open>scheduledAt\<close>, \<^verbatim>\<open>cc\<close>, \<^verbatim>\<open>bcc\<close> is a property of the request exactly when
  the argument is truthy, with the argument's value: an argument equal to the empty string is
  left out, an argument equal to the empty array (a truthy value) is kept.
\<close>

theorem email_request_fields:
  assumes "req_method request = ''tools/call''"
    and "get_prop (req_params request) ''name'' = JStr ''send-email''"
    and "args = get_prop (req_params request) ''arguments''"
    and "EmailsSend e \<in> set (snd (handleRequest cfg resend request))"
  shows "has_own e ''replyTo''
    \<and> \<not> nullish (get_prop e ''replyTo'')
    \<and> (nullish (get_prop args ''replyTo'') \<and> \<not> repliers_configured cfg
          \<longrightarrow> get_prop e ''replyTo'' = JArr [])
    \<and> (\<forall>k \<in> {''html'', ''scheduledAt'', ''cc'', ''bcc''}.
          has_own e k = truthy (get_prop args k)
          \<and> (has_own e k \<longrightarrow> get_prop e k = get_prop args k)
          \<and> (get_prop args k = JStr '''' \<longrightarrow> \<not> has_own e k)
          \<and> (get_prop args k = JArr [] \<longrightarrow> has_own e k))"
proof -
  let ?f = "coalesce (get_prop args ''from'') (sender_value cfg)"
  let ?r = "coalesce (get_prop args ''replyTo'') (repliers_value cfg)"
  have e: "e = JObj (emailRequestObject args ?f ?r)"
    using sent_request_shape [OF assms(1,2,4)] assms(3) by simp
  have r: "\<not> nullish ?r"
    by (simp add: coalesce_def repliers_value_def)
  have d: "nullish (get_prop args ''replyTo'') \<and> \<not> repliers_configured cfg \<longrightarrow> ?r = JArr []"
    by (simp add: coalesce_def repliers_value_def repliers_configured_def)
  have o: "\<forall>k \<in> {''html'', ''scheduledAt'', ''cc'', ''bcc''}.
          has_own e k = truthy (get_prop args k)
          \<and> (has_own e k \<longrightarrow> get_prop e k = get_prop args k)
          \<and> (get_prop args k = JStr '''' \<longrightarrow> \<not> has_own e k)
          \<and> (get_prop args k = JArr [] \<longrightarrow> has_own e k)"
    unfolding e by (simp add: emailRequestObject_optional)
  show ?thesis
    using r d o unfolding e by (simp add: emailRequestObject_fixed)
qed

theorem email_request_fields_witness:
  "snd (handleRequest config_without_defaults provider_ok
          (tools_call IdNull ''send-email''
             (JObj (basic_arguments @ [(''from'', JStr ''me@b.com''), (''html'', JStr ''''),
                                       (''scheduledAt'', JStr ''in 2 hours''), (''cc'', JNull)]))))
     = [EmailsSend (JObj [(''to'', JStr ''a@b.com''), (''subject'', JStr ''hi''),
                          (''text'', JStr ''hello''), (''from'', JStr ''me@b.com''),
                          (''replyTo'', JArr []), (''scheduledAt'', JStr ''in 2 hours'')])]
   \<and> has_own (JObj [(''to'', JStr ''a@b.com''), (''subject'', JStr ''hi''),
                          (''text'', JStr ''hello''), (''from'', JStr ''me@b.com''),
                          (''replyTo'', JArr []), (''scheduledAt'', JStr ''in 2 hours'')]) ''replyTo''
   \<and> \<not> has_own (JObj [(''to'', JStr ''a@b.com''), (''subject'', JStr ''hi''),
                          (''text'', JStr ''hello''), (''from'', JStr ''me@b.com''),
                          (''replyTo'', JArr []), (''scheduledAt'', JStr ''in 2 hours'')]) ''html''"
proof -
  let ?q = "tools_call IdNull ''send-email''
             (JObj (basic_arguments @ [(''from'', JStr ''me@b.com''), (''html'', JStr ''''),
                                       (''scheduledAt'', JStr ''in 2 hours''), (''cc'', JNull)]))"
  let ?e = "JObj [(''to'', JStr ''a@b.com''), (''subject'', JStr ''hi''),
                          (''text'', JStr ''hello''), (''from'', JStr ''me@b.com''),
                          (''replyTo'', JArr []), (''scheduledAt'', JStr ''in 2 hours'')]"
  have m: "req_method ?q = ''tools/call''" by (simp add: tools_call_def)
  have n: "get_prop (req_params ?q) ''name'' = JStr ''send-email''" by (simp add: tools_call_def)
  have calls: "snd (handleRequest config_without_defaults provider_ok ?q) = [EmailsSend ?e]"
    unfolding send_email_calls [OF m n]
    by (simp add: buildEmailRequest_def destructure_def
          tools_call_def basic_arguments_def coalesce_def sender_value_def repliers_value_def
          config_without_defaults_def emailRequestObject_def Let_def split: sum.splits)
  then have mem: "EmailsSend ?e \<in> set (snd (handleRequest config_without_defaults provider_ok ?q))"
    by simp
  from email_request_fields [OF m n refl mem]
  have "has_own ?e ''replyTo''" and "has_own ?e ''html'' = truthy (get_prop (get_prop (req_params ?q) ''arguments'') ''html'')"
    by simp_all
  then have "has_own ?e ''replyTo''" and "\<not> has_own ?e ''html''"
    by (simp_all add: tools_call_def basic_arguments_def)
  with calls show ?thesis by simp
qed

text \<open>
  Claim C10, as stated, also has an argument equal to an empty value left out. An empty
  array is an empty value and is truthy: a call with \<^verbatim>\<open>cc: []\<close> passes \<^verbatim>\<open>cc: []\<close>
  on to the provider.
\<close>

theorem empty_cc_is_passed_on:
  "get_prop (JObj (basic_arguments @ [(''cc'', JArr [])])) ''cc'' = JArr []
   \<and> snd (handleRequest config_sender_only provider_ok
          (tools_call IdNull ''send-email'' (JObj (basic_arguments @ [(''cc'', JArr [])]))))
     = [EmailsSend (JObj [(''to'', JStr ''a@b.com''), (''subject'', JStr ''hi''),
                          (''text'', JStr ''hello''), (''from'', JStr ''noreply@example.com''),
                          (''replyTo'', JArr []), (''cc'', JArr [])])]
   \<and> has_own (JObj [(''to'', JStr ''a@b.com''), (''subject'', JStr ''hi''),
                          (''text'', JStr ''hello''), (''from'', JStr ''noreply@example.com''),
                          (''replyTo'', JArr []), (''cc'', JArr [])]) ''cc''"
proof -
  let ?q = "tools_call IdNull ''send-email'' (JObj (basic_arguments @ [(''cc'', JArr [])]))"
  have m: "req_method ?q = ''tools/call''" by (simp add: tools_call_def)
  have n: "get_prop (req_params ?q) ''name'' = JStr ''send-email''" by (simp add: tools_call_def)
  have "snd (handleRequest config_sender_only provider_ok ?q)
     = [EmailsSend (JObj [(''to'', JStr ''a@b.com''), (''subject'', JStr ''hi''),
                          (''text'', JStr ''hello''), (''from'', JStr ''noreply@example.com''),
                          (''replyTo'', JArr []), (''cc'', JArr [])])]"
    unfolding send_email_calls [OF m n]
    by (simp add: buildEmailRequest_def destructure_def
          tools_call_def basic_arguments_def coalesce_def sender_value_def repliers_value_def
          config_sender_only_def emailRequestObject_def Let_def split: sum.splits)
  then show ?thesis by (simp add: basic_arguments_def)
qed

section \<open>Failures of a tool call\<close>

text \<open>
  Claim C6, as amended. When the request object passed to the provider's send operation is
  answered with a reply whose \<^verbatim>\<open>error\<close> is truthy (any structured error object is),
  the dispatcher's response is the error \<^verbatim>\<open>-32603\<close> whose message is
  \<^verbatim>\<open>Email failed to send: \<close> followed by the JSON serialization of that error object, so
  the message contains the serialization. When the send operation throws, the mapping is a
  different one and nothing is serialized: for a thrown \<^verbatim>\<open>Error\<close> the response is the
  error \<^verbatim>\<open>-32603\<close> with the error's message, or \<^verbatim>\<open>Internal error\<close> when that
  message is empty; for any other thrown value except \<^verbatim>\<open>null\<close> and
  \<^verbatim>\<open>undefined\<close> it is the error \<^verbatim>\<open>-32603\<close> with the value's \<^verbatim>\<open>message\<close>
  property when that is truthy, and \<^verbatim>\<open>Internal error\<close> otherwise.
\<close>

theorem provider_failure_internal_error:
  assumes "req_method request = ''tools/call''"
    and "get_prop (req_params request) ''name'' = JStr ''send-email''"
    and "EmailsSend e \<in> set (snd (handleRequest cfg resend request))"
  shows "(\<forall>response. emails_send resend e = Resolves response
            \<and> truthy (get_prop response ''error'') \<longrightarrow>
          (\<exists>s. stringify (get_prop response ''error'') = Some s
             \<and> handleRequest cfg resend request =
                 (Inr \<lparr>resp_jsonrpc = ''2.0'', resp_result = None,
                       resp_error = Some \<lparr>code = - 32603,
                          error_message = JStr (''Email failed to send: '' @ s)\<rparr>,
                       resp_id = req_id request\<rparr>, [EmailsSend e])
             \<and> sublist s (''Email failed to send: '' @ s)))
    \<and> (\<forall>ex. emails_send resend e = Rejects (ErrorInstance ex) \<longrightarrow>
          handleRequest cfg resend request =
            (Inr \<lparr>resp_jsonrpc = ''2.0'', resp_result = None,
                  resp_error = Some \<lparr>code = - 32603,
                     error_message = JStr (if message ex = [] then ''Internal error''
                                           else message ex)\<rparr>,
                  resp_id = req_id request\<rparr>, [EmailsSend e]))
    \<and> (\<forall>v. emails_send resend e = Rejects (OtherValue v) \<and> \<not> nullish v \<longrightarrow>
          handleRequest cfg resend request =
            (Inr \<lparr>resp_jsonrpc = ''2.0'', resp_result = None,
                  resp_error = Some \<lparr>code = - 32603,
                     error_message = (if truthy (get_prop v ''message'')
                                      then get_prop v ''message''
                                      else JStr ''Internal error'')\<rparr>,
                  resp_id = req_id request\<rparr>, [EmailsSend e]))"
proof -
  let ?args = "get_prop (req_params request) ''arguments''"
  obtain r where b: "buildEmailRequest cfg ?args = Inr r" and e: "e = JObj r"
    using send_email_called [OF assms] by blast
  have h: "handleRequest cfg resend request =
      ((case afterProvider ''Email failed to send: '' ''Email sent successfully! ''
                   (emails_send resend e) of
              Inl t \<Rightarrow> catch_response request t
            | Inr result \<Rightarrow> Inr (success_response request result)),
           [EmailsSend e])"
    using handleRequest_send_email [OF assms(1,2), of cfg resend] b e by simp
  have reported: "\<exists>s. stringify (get_prop response ''error'') = Some s
             \<and> handleRequest cfg resend request =
                 (Inr \<lparr>resp_jsonrpc = ''2.0'', resp_result = None,
                       resp_error = Some \<lparr>code = - 32603,
                          error_message = JStr (''Email failed to send: '' @ s)\<rparr>,
                       resp_id = req_id request\<rparr>, [EmailsSend e])
             \<and> sublist s (''Email failed to send: '' @ s)"
    if out: "emails_send resend e = Resolves response"
      and t: "truthy (get_prop response ''error'')" for response
  proof -
    from t obtain s where s: "stringify (get_prop response ''error'') = Some s"
      using truthy_stringify by blast
    have nn: "\<not> nullish response"
      using t get_prop_nullish by fastforce
    have "afterProvider ''Email failed to send: '' ''Email sent successfully! ''
            (emails_send resend e)
          = Inl (ErrorInstance (Error (''Email failed to send: '' @ s)))"
      using out t s nn by (simp add: afterProvider_def read_member_def stringify_text_def)
    then have "handleRequest cfg resend request =
                 (Inr \<lparr>resp_jsonrpc = ''2.0'', resp_result = None,
                       resp_error = Some \<lparr>code = - 32603,
                          error_message = JStr (''Email failed to send: '' @ s)\<rparr>,
                       resp_id = req_id request\<rparr>, [EmailsSend e])"
      unfolding h by (simp add: catch_response_ErrorInstance failure_response_def)
    moreover have "sublist s (''Email failed to send: '' @ s)"
      by (rule sublist_append_leftI)
    ultimately show ?thesis using s by blast
  qed
  have thrown_error: "handleRequest cfg resend request =
            (Inr \<lparr>resp_jsonrpc = ''2.0'', resp_result = None,
                  resp_error = Some \<lparr>code = - 32603,
                     error_message = JStr (if message ex = [] then ''Internal error''
                                           else message ex)\<rparr>,
                  resp_id = req_id request\<rparr>, [EmailsSend e])"
    if "emails_send resend e = Rejects (ErrorInstance ex)" for ex
    unfolding h using that
    by (simp add: afterProvider_def catch_response_ErrorInstance failure_response_def)
  have thrown_value: "handleRequest cfg resend request =
            (Inr \<lparr>resp_jsonrpc = ''2.0'', resp_result = None,
                  resp_error = Some \<lparr>code = - 32603,
                     error_message = (if truthy (get_prop v ''message'')
                                      then get_prop v ''message''
                                      else JStr ''Internal error'')\<rparr>,
                  resp_id = req_id request\<rparr>, [EmailsSend e])"
    if "emails_send resend e = Rejects (OtherValue v)" and "\<not> nullish v" for v
    unfolding h using that
    by (simp add: afterProvider_def catch_response_OtherValue failure_response_def)
  from reported thrown_error thrown_value show ?thesis by blast
qed

theorem provider_failure_internal_error_witness:
  "handleRequest config_sender_only provider_bad
       (tools_call (IdNumber 3) ''send-email'' (JObj basic_arguments))
     = (Inr \<lparr>resp_jsonrpc = ''2.0'', resp_result = None,
         resp_error = Some \<lparr>code = - 32603,
            error_message = JStr (''Email failed to send: {'' @ [CHR 0x22] @ ''message''
               @ [CHR 0x22] @ '':'' @ [CHR 0x22] @ ''bad'' @ [CHR 0x22] @ ''}'')\<rparr>,
         resp_id = IdNumber 3\<rparr>,
        [EmailsSend (JObj (basic_arguments @ [(''from'', JStr ''noreply@example.com''),
                                              (''replyTo'', JArr [])]))])
   \<and> sublist ''bad'' (''Email failed to send: {'' @ [CHR 0x22] @ ''message'' @ [CHR 0x22]
               @ '':'' @ [CHR 0x22] @ ''bad'' @ [CHR 0x22] @ ''}'')
   \<and> handleRequest config_sender_only provider_throws
       (tools_call (IdNumber 3) ''send-email'' (JObj basic_arguments))
     = (Inr \<lparr>resp_jsonrpc = ''2.0'', resp_result = None,
         resp_error = Some \<lparr>code = - 32603, error_message = JStr ''fetch failed''\<rparr>,
         resp_id = IdNumber 3\<rparr>,
        [EmailsSend (JObj (basic_arguments @ [(''from'', JStr ''noreply@example.com''),
                                              (''replyTo'', JArr [])]))])"
proof -
  let ?q = "tools_call (IdNumber 3) ''send-email'' (JObj basic_arguments)"
  let ?e = "JObj (basic_arguments @ [(''from'', JStr ''noreply@example.com''),
                                     (''replyTo'', JArr [])])"
  let ?bad = "JObj [(''error'', JObj [(''message'', JStr ''bad'')])]"
  have m: "req_method ?q = ''tools/call''" by (simp add: tools_call_def)
  have n: "get_prop (req_params ?q) ''name'' = JStr ''send-email''" by (simp add: tools_call_def)
  have calls: "snd (handleRequest config_sender_only resend ?q) = [EmailsSend ?e]" for resend
    unfolding send_email_calls [OF m n]
    by (simp add: buildEmailRequest_def destructure_def
          tools_call_def basic_arguments_def coalesce_def sender_value_def repliers_value_def
          config_sender_only_def emailRequestObject_def Let_def split: sum.splits)
  have mem: "EmailsSend ?e \<in> set (snd (handleRequest config_sender_only resend ?q))" for resend
    by (simp add: calls)
  have bad: "emails_send provider_bad ?e = Resolves ?bad \<and> truthy (get_prop ?bad ''error'')"
    by (simp add: provider_bad_def)
  have ser: "stringify (get_prop ?bad ''error'')
      = Some (''{'' @ [CHR 0x22] @ ''message'' @ [CHR 0x22] @ '':'' @ [CHR 0x22] @ ''bad''
               @ [CHR 0x22] @ ''}'')"
    by (simp add: quote_def escape_char_def)
  have throws: "emails_send provider_throws ?e = Rejects (ErrorInstance (Error ''fetch failed''))"
    by (simp add: provider_throws_def)
  note t_bad = provider_failure_internal_error [OF m n mem, of provider_bad]
  note t_throws = provider_failure_internal_error [OF m n mem, of provider_throws]
  have first: "handleRequest config_sender_only provider_bad ?q
     = (Inr \<lparr>resp_jsonrpc = ''2.0'', resp_result = None,
         resp_error = Some \<lparr>code = - 32603,
            error_message = JStr (''Email failed to send: {'' @ [CHR 0x22] @ ''message''
               @ [CHR 0x22] @ '':'' @ [CHR 0x22] @ ''bad'' @ [CHR 0x22] @ ''}'')\<rparr>,
         resp_id = IdNumber 3\<rparr>, [EmailsSend ?e])"
  proof -
    from t_bad bad obtain s where "stringify (get_prop ?bad ''error'') = Some s"
      and "handleRequest config_sender_only provider_bad ?q =
                 (Inr \<lparr>resp_jsonrpc = ''2.0'', resp_result = None,
                       resp_error = Some \<lparr>code = - 32603,
                          error_message = JStr (''Email failed to send: '' @ s)\<rparr>,
                       resp_id = req_id ?q\<rparr>, [EmailsSend ?e])"
      by blast
    with ser show ?thesis by (simp add: tools_call_def)
  qed
  have second: "sublist ''bad'' (''Email failed to send: {'' @ [CHR 0x22] @ ''message'' @ [CHR 0x22]
               @ '':'' @ [CHR 0x22] @ ''bad'' @ [CHR 0x22] @ ''}'')"
    using sublist_appendI [of "''bad''"
        "''Email failed to send: {'' @ [CHR 0x22] @ ''message'' @ [CHR 0x22] @ '':'' @ [CHR 0x22]"
        "[CHR 0x22] @ ''}''"]
    by simp
  have third: "handleRequest config_sender_only provider_throws ?q
     = (Inr \<lparr>resp_jsonrpc = ''2.0'', resp_result = None,
         resp_error = Some \<lparr>code = - 32603, error_message = JStr ''fetch failed''\<rparr>,
         resp_id = IdNumber 3\<rparr>, [EmailsSend ?e])"
    using t_throws throws by (simp add: tools_call_def)
  from first second third show ?thesis by (intro conjI)
qed

text \<open>
  Claim C6, as stated, gives a thrown provider error the same mapping as a reported one: a
  message containing the serialized provider error. When the send operation throws the
  object \<^verbatim>\<open>{error:{message:"bad"}}\<close>, the response's message is \<^verbatim>\<open>Internal error\<close>:
  it contains neither the serialization of the thrown object nor \<^verbatim>\<open>bad\<close>.
\<close>

theorem thrown_error_is_not_serialized:
  "handleRequest config_sender_only provider_throws_object
       (tools_call (IdNumber 3) ''send-email'' (JObj basic_arguments))
     = (Inr \<lparr>resp_jsonrpc = ''2.0'', resp_result = None,
         resp_error = Some \<lparr>code = - 32603, error_message = JStr ''Internal error''\<rparr>,
         resp_id = IdNumber 3\<rparr>,
        [EmailsSend (JObj (basic_arguments @ [(''from'', JStr ''noreply@example.com''),
                                              (''replyTo'', JArr [])]))])
   \<and> stringify (JObj [(''error'', JObj [(''message'', JStr ''bad'')])])
     = Some (''{'' @ [CHR 0x22] @ ''error'' @ [CHR 0x22] @ '':{'' @ [CHR 0x22] @ ''message''
              @ [CHR 0x22] @ '':'' @ [CHR 0x22] @ ''bad'' @ [CHR 0x22] @ ''}}'')
   \<and> \<not> sublist (''{'' @ [CHR 0x22] @ ''error'' @ [CHR 0x22] @ '':{'' @ [CHR 0x22] @ ''message''
              @ [CHR 0x22] @ '':'' @ [CHR 0x22] @ ''bad'' @ [CHR 0x22] @ ''}}'') ''Internal error''
   \<and> \<not> sublist ''bad'' ''Internal error''"
proof -
  let ?q = "tools_call (IdNumber 3) ''send-email'' (JObj basic_arguments)"
  have m: "req_method ?q = ''tools/call''" by (simp add: tools_call_def)
  have n: "get_prop (req_params ?q) ''name'' = JStr ''send-email''" by (simp add: tools_call_def)
  have response: "handleRequest config_sender_only provider_throws_object ?q
     = (Inr \<lparr>resp_jsonrpc = ''2.0'', resp_result = None,
         resp_error = Some \<lparr>code = - 32603, error_message = JStr ''Internal error''\<rparr>,
         resp_id = IdNumber 3\<rparr>,
        [EmailsSend (JObj (basic_arguments @ [(''from'', JStr ''noreply@example.com''),
                                              (''replyTo'', JArr [])]))])"
    unfolding handleRequest_send_email [OF m n]
    by (simp add: buildEmailRequest_def destructure_def afterProvider_def
          tools_call_def basic_arguments_def coalesce_def sender_value_def repliers_value_def
          config_sender_only_def emailRequestObject_def Let_def provider_throws_object_def
          catch_response_def read_member_def failure_response_def)
  have serialized: "stringify (JObj [(''error'', JObj [(''message'', JStr ''bad'')])])
     = Some (''{'' @ [CHR 0x22] @ ''error'' @ [CHR 0x22] @ '':{'' @ [CHR 0x22] @ ''message''
              @ [CHR 0x22] @ '':'' @ [CHR 0x22] @ ''bad'' @ [CHR 0x22] @ ''}}'')"
    by (simp add: quote_def escape_char_def)
  have longer: "\<not> sublist (''{'' @ [CHR 0x22] @ ''error'' @ [CHR 0x22] @ '':{'' @ [CHR 0x22]
              @ ''message'' @ [CHR 0x22] @ '':'' @ [CHR 0x22] @ ''bad'' @ [CHR 0x22] @ ''}}'')
            ''Internal error''"
  proof
    assume "sublist (''{'' @ [CHR 0x22] @ ''error'' @ [CHR 0x22] @ '':{'' @ [CHR 0x22]
              @ ''message'' @ [CHR 0x22] @ '':'' @ [CHR 0x22] @ ''bad'' @ [CHR 0x22] @ ''}}'')
            ''Internal error''"
    then have "length (''{'' @ [CHR 0x22] @ ''error'' @ [CHR 0x22] @ '':{'' @ [CHR 0x22]
              @ ''message'' @ [CHR 0x22] @ '':'' @ [CHR 0x22] @ ''bad'' @ [CHR 0x22] @ ''}}'')
            \<le> length ''Internal error''"
      by (rule sublist_length_le)
    then show False by simp
  qed
  have no_b: "CHR ''b'' \<notin> set ''Internal error''" by simp
  have absent: "\<not> sublist ''bad'' ''Internal error''"
  proof
    assume "sublist ''bad'' ''Internal error''"
    then have "set ''bad'' \<subseteq> set ''Internal error''"
      by (rule set_mono_sublist)
    with no_b show False by simp
  qed
  from response serialized longer absent show ?thesis by (intro conjI)
qed

text \<open>
  Claim C8. A \<^verbatim>\<open>tools/call\<close> whose \<^verbatim>\<open>name\<close> is neither \<^verbatim>\<open>send-email\<close> nor
  \<^verbatim>\<open>list-audiences\<close> is answered with the error \<^verbatim>\<open>-32603\<close>, no \<^verbatim>\<open>result\<close>, the
  request's \<^verbatim>\<open>id\<close>, and no provider call: the error thrown by \<^verbatim>\<open>handleCallTool\<close> is
  caught by the dispatcher. When the name is a string, that error is
  \<^verbatim>\<open>Unknown tool: \<close> followed by the name, and this is the response's message.
\<close>

theorem unknown_tool_internal_error:
  assumes "req_method request = ''tools/call''"
    and "get_prop (req_params request) ''name'' \<noteq> JStr ''send-email''"
    and "get_prop (req_params request) ''name'' \<noteq> JStr ''list-audiences''"
  shows "\<exists>m. handleRequest cfg resend request =
               (Inr \<lparr>resp_jsonrpc = ''2.0'', resp_result = None,
                     resp_error = Some \<lparr>code = - 32603, error_message = JStr m\<rparr>,
                     resp_id = req_id request\<rparr>, [])
             \<and> (\<forall>s. get_prop (req_params request) ''name'' = JStr s \<longrightarrow>
                    fst (handleCallTool cfg resend (req_params request))
                      = Inl (ErrorInstance (Error (''Unknown tool: '' @ s)))
                    \<and> m = ''Unknown tool: '' @ s)"
proof (cases "nullish (req_params request)")
  case True
  then obtain m where "destructure ''name'' ''params'' (req_params request) = Inl (TypeError m)"
      and "m \<noteq> []"
    using destructure_Inl by blast
  moreover have "\<And>s. get_prop (req_params request) ''name'' \<noteq> JStr s"
    using True by (simp add: get_prop_nullish)
  ultimately show ?thesis
    using assms(1)
    by (simp add: handleRequest_def handleCallTool_def catch_response_ErrorInstance
          failure_response_def)
next
  case False
  let ?name = "get_prop (req_params request) ''name''"
  have call: "handleCallTool cfg resend (req_params request) =
      (case to_string ?name of Inl e \<Rightarrow> (Inl (ErrorInstance e), [])
       | Inr s \<Rightarrow> (Inl (ErrorInstance (Error (''Unknown tool: '' @ s))), []))"
    using False assms(2,3) by (simp add: handleCallTool_def destructure_Inr Let_def)
  show ?thesis
  proof (cases "to_string ?name")
    case (Inl e)
    then have "\<And>s. ?name \<noteq> JStr s" by auto
    with Inl call assms(1) show ?thesis
      by (simp add: handleRequest_def catch_response_ErrorInstance failure_response_def)
  next
    case (Inr t)
    then have "\<And>s. ?name = JStr s \<Longrightarrow> t = s" by auto
    with Inr call assms(1) show ?thesis
      by (auto simp add: handleRequest_def catch_response_ErrorInstance failure_response_def)
  qed
qed

theorem unknown_tool_internal_error_witness:
  "req_method (tools_call (IdString ''r1'') ''unknown-tool'' (JObj [])) = ''tools/call''
   \<and> handleRequest config_with_defaults provider_ok
        (tools_call (IdString ''r1'') ''unknown-tool'' (JObj []))
      = (Inr \<lparr>resp_jsonrpc = ''2.0'', resp_result = None,
              resp_error = Some \<lparr>code = - 32603,
                                  error_message = JStr ''Unknown tool: unknown-tool''\<rparr>,
              resp_id = IdString ''r1''\<rparr>, [])"
proof -
  let ?q = "tools_call (IdString ''r1'') ''unknown-tool'' (JObj [])"
  have m: "req_method ?q = ''tools/call''" by (simp add: tools_call_def)
  have n: "get_prop (req_params ?q) ''name'' = JStr ''unknown-tool''" by (simp add: tools_call_def)
  have d: "get_prop (req_params ?q) ''name'' \<noteq> JStr ''send-email''"
      "get_prop (req_params ?q) ''name'' \<noteq> JStr ''list-audiences''"
    unfolding n by simp_all
  from unknown_tool_internal_error [OF m d, of config_with_defaults provider_ok] n
  obtain msg where "handleRequest config_with_defaults provider_ok ?q =
               (Inr \<lparr>resp_jsonrpc = ''2.0'', resp_result = None,
                     resp_error = Some \<lparr>code = - 32603, error_message = JStr msg\<rparr>,
                     resp_id = req_id ?q\<rparr>, [])" and "msg = ''Unknown tool: '' @ ''unknown-tool''"
    by blast
  then show ?thesis by (simp add: tools_call_def)
qed

section \<open>Arguments the dispatcher does not check\<close>

text \<open>
  Claim C1 says that a \<^verbatim>\<open>send-email\<close> call without \<^verbatim>\<open>to\<close>, \<^verbatim>\<open>subject\<close> or
  \<^verbatim>\<open>text\<close> fails validation before any provider call. \<^verbatim>\<open>handleCallTool\<close> never looks
  at these three arguments, although the schema it lists declares them required: with a
  default sender configured, a call without \<^verbatim>\<open>to\<close> reaches the provider, with
  \<^verbatim>\<open>to: undefined\<close> in the request, and the response is a success.
\<close>

theorem missing_recipient_reaches_provider:
  "handleRequest config_sender_only provider_ok
        (tools_call (IdNumber 1) ''send-email''
           (JObj [(''subject'', JStr ''hi''), (''text'', JStr ''hello'')]))
     = (Inr \<lparr>resp_jsonrpc = ''2.0'',
             resp_result = Some (text_content (''Email sent successfully! ''
                              @ stringify_text (JObj [(''id'', JStr ''1'')]))),
             resp_error = None, resp_id = IdNumber 1\<rparr>,
        [EmailsSend (JObj [(''to'', JUndefined), (''subject'', JStr ''hi''),
                           (''text'', JStr ''hello''), (''from'', JStr ''noreply@example.com''),
                           (''replyTo'', JArr [])])])"
proof -
  let ?q = "tools_call (IdNumber 1) ''send-email''
           (JObj [(''subject'', JStr ''hi''), (''text'', JStr ''hello'')])"
  have m: "req_method ?q = ''tools/call''" by (simp add: tools_call_def)
  have n: "get_prop (req_params ?q) ''name'' = JStr ''send-email''" by (simp add: tools_call_def)
  show ?thesis
    unfolding handleRequest_send_email [OF m n]
    by (simp add: buildEmailRequest_def destructure_def afterProvider_def read_member_def
          tools_call_def coalesce_def sender_value_def repliers_value_def provider_ok_def
          config_sender_only_def emailRequestObject_def success_response_def Let_def)
qed

text \<open>
  Claim C5 says that a resolved reply-to that is neither a string nor a sequence fails
  validation before any provider call. The server-push variant's handler has that test;
  \<^verbatim>\<open>handleCallTool\<close> has none: \<^verbatim>\<open>replyTo: 42\<close> is passed to the provider as it is and
  the response is a success.
\<close>

theorem numeric_reply_to_reaches_provider:
  "handleRequest config_sender_only provider_ok
        (tools_call (IdNumber 1) ''send-email''
           (JObj (basic_arguments @ [(''replyTo'', JNum 42)])))
     = (Inr \<lparr>resp_jsonrpc = ''2.0'',
             resp_result = Some (text_content (''Email sent successfully! ''
                              @ stringify_text (JObj [(''id'', JStr ''1'')]))),
             resp_error = None, resp_id = IdNumber 1\<rparr>,
        [EmailsSend (JObj [(''to'', JStr ''a@b.com''), (''subject'', JStr ''hi''),
                           (''text'', JStr ''hello''), (''from'', JStr ''noreply@example.com''),
                           (''replyTo'', JNum 42)])])
   \<and> sse_send_email config_sender_only provider_ok
           (JObj (basic_arguments @ [(''replyTo'', JNum 42)]))
      = (Inl (ErrorInstance (Error ''replyTo argument must be provided.'')), [])"
proof -
  let ?q = "tools_call (IdNumber 1) ''send-email''
           (JObj (basic_arguments @ [(''replyTo'', JNum 42)]))"
  have m: "req_method ?q = ''tools/call''" by (simp add: tools_call_def)
  have n: "get_prop (req_params ?q) ''name'' = JStr ''send-email''" by (simp add: tools_call_def)
  have json_rpc: "handleRequest config_sender_only provider_ok ?q
     = (Inr \<lparr>resp_jsonrpc = ''2.0'',
             resp_result = Some (text_content (''Email sent successfully! ''
                              @ stringify_text (JObj [(''id'', JStr ''1'')]))),
             resp_error = None, resp_id = IdNumber 1\<rparr>,
        [EmailsSend (JObj [(''to'', JStr ''a@b.com''), (''subject'', JStr ''hi''),
                           (''text'', JStr ''hello''), (''from'', JStr ''noreply@example.com''),
                           (''replyTo'', JNum 42)])])"
    unfolding handleRequest_send_email [OF m n]
    by (simp add: buildEmailRequest_def destructure_def afterProvider_def read_member_def
          tools_call_def coalesce_def sender_value_def repliers_value_def provider_ok_def
          basic_arguments_def config_sender_only_def emailRequestObject_def
          success_response_def Let_def)
  have sse: "sse_send_email config_sender_only provider_ok
           (JObj (basic_arguments @ [(''replyTo'', JNum 42)]))
      = (Inl (ErrorInstance (Error ''replyTo argument must be provided.'')), [])"
    by (simp add: sse_send_email_def destructure_def coalesce_def sender_value_def
          repliers_value_def basic_arguments_def config_sender_only_def Let_def)
  from json_rpc sse show ?thesis by (intro conjI)
qed

end
